theory Spec2Isabelle
  imports Main "HOL-Library.Word"
begin

section \<open>Data model of \<^verbatim>\<open>argument.go\<close>\<close>

text \<open>
  Go's \<^verbatim>\<open>int\<close> is modelled as \<^typ>\<open>int\<close>; the two places of the file where an
  addition can leave the 64-bit range (\<^verbatim>\<open>position+o.size\<close> and \<^verbatim>\<open>+= argCount\<close>) wrap
  through \<open>wrap_int\<close>. A \<^verbatim>\<open>float64\<close> is its 64-bit pattern. A Go \<^verbatim>\<open>string\<close> is a
  sequence of bytes, as \<^typ>\<open>string\<close> is.
\<close>

definition wrap_int :: "int \<Rightarrow> int" where
  "wrap_int x = (x + 2 ^ 63) mod 2 ^ 64 - 2 ^ 63"

type_synonym float64 = "64 word"

type_synonym handle = nat

text \<open>
  The dynamic type and value behind \<^verbatim>\<open>result interface{}\<close>: one constructor for each
  pointer type the type switches of the file name, and \<open>POther\<close> (with the name of its
  type) for every other dynamic type. An \<^verbatim>\<open>os.File\<close> value is the handle it wraps;
  the zero \<^verbatim>\<open>os.File\<close> wraps none.
\<close>

datatype result =
    PHelp
  | PBool bool
  | PInt int
  | PFloat64 float64
  | PString string
  | PFile "handle option"
  | PStrings "string list"
  | PInts "int list"
  | PFloat64s "float64 list"
  | PFiles "handle list"
  | POther string

text \<open>The dynamic type and value behind \<^verbatim>\<open>Default interface{}\<close> of \<^verbatim>\<open>Options\<close>.\<close>

datatype dflt =
    DBool bool
  | DInt int
  | DFloat64 float64
  | DString string
  | DStrings "string list"
  | DInts "int list"
  | DFloat64s "float64 list"
  | DOther string

text \<open>What the verb \<^verbatim>\<open>%T\<close> prints for a default value.\<close>

fun type_name :: "dflt \<Rightarrow> string" where
  "type_name (DBool _) = ''bool''"
| "type_name (DInt _) = ''int''"
| "type_name (DFloat64 _) = ''float64''"
| "type_name (DString _) = ''string''"
| "type_name (DStrings _) = ''[]string''"
| "type_name (DInts _) = ''[]int''"
| "type_name (DFloat64s _) = ''[]float64''"
| "type_name (DOther t) = t"

text \<open>
  The errors of the file, one constructor for each format string:
  \<^item> \<open>OnlyOnce n\<close>: \<^verbatim>\<open>[%s] can only be present once\<close>;
  \<^item> \<open>ValidateError e\<close>: the error \<^verbatim>\<open>Validate\<close> returned, as it is;
  \<^item> \<open>MustBeFollowed n what\<close>: \<^verbatim>\<open>[%s] must be followed by ...\<close>;
  \<^item> \<open>TooMany n\<close>: \<^verbatim>\<open>[%s] followed by too many arguments\<close>;
  \<^item> \<open>BadInteger n a\<close>: \<^verbatim>\<open>[%s] bad interger value [%s]\<close>;
  \<^item> \<open>BadFloat n a\<close>: \<^verbatim>\<open>[%s] bad floating point value [%s]\<close>;
  \<^item> \<open>BadSelector n vs\<close>: \<^verbatim>\<open>bad value for [%s]. Allowed values are %v\<close>;
  \<^item> \<open>OsError e\<close>: the error of \<^verbatim>\<open>os.OpenFile\<close>, as it is;
  \<^item> \<open>WhileHandling e es\<close>: \<^verbatim>\<open>while handling error: %v, other errors occured: %#v\<close>;
  \<^item> \<open>UnsupportedType\<close>: \<^verbatim>\<open>unsupported type [%t]\<close>;
  \<^item> \<open>DefaultType t u\<close>: \<^verbatim>\<open>cannot use default type [%T] as type [u]\<close>.
\<close>

datatype error =
    OnlyOnce string
  | ValidateError string
  | MustBeFollowed string string
  | TooMany string
  | BadInteger string string
  | BadFloat string string
  | BadSelector string "string list"
  | OsError string
  | WhileHandling string "string list"
  | UnsupportedType
  | DefaultType string string

text \<open>
  \<^verbatim>\<open>Options\<close> is declared outside this file; the fields the file reads are taken from
  their uses: \<^verbatim>\<open>Required\<close>, \<^verbatim>\<open>Validate\<close> (nil or a function from the captured
  arguments to an error), \<^verbatim>\<open>Help\<close> and \<^verbatim>\<open>Default\<close> (nil or a value).
\<close>

record Options =
  Required :: bool
  Validate :: "(string list \<Rightarrow> string option) option"
  Help :: string
  Default :: "dflt option"

text \<open>
  The struct \<^verbatim>\<open>arg\<close>. The receiver \<^verbatim>\<open>o\<close> of the methods is written \<open>a\<close> below, and
  the field \<^verbatim>\<open>size\<close> is \<open>size_arg\<close>. \<^verbatim>\<open>Command\<close> is declared outside this file and
  used only through \<^verbatim>\<open>o.parent.Help(nil)\<close>: the field \<open>parent\<close> holds the text that
  call renders.
\<close>

record arg =
  result :: result
  opts :: "Options option"
  sname :: string
  lname :: string
  size_arg :: int
  unique :: bool
  parsed :: bool
  fileFlag :: int
  filePerm :: "32 word"
  selector :: "string list option"
  parent :: string

text \<open>
  \<^verbatim>\<open>os.Exit(0)\<close> does not return: a function that can reach it yields \<open>Exit\<close> with the
  text printed before, or \<open>Return\<close> with what it returns.
\<close>

datatype 'a outcome = Exit string | Return 'a

section \<open>Presenter: \<^verbatim>\<open>name\<close> and \<^verbatim>\<open>usage\<close>\<close>

definition name :: "arg \<Rightarrow> string" where
  "name a =
     (if lname a = [] then ''-'' @ sname a
      else if sname a = [] then ''--'' @ lname a
      else ''-'' @ sname a @ ''|'' @ ''--'' @ lname a)"

text \<open>\<^verbatim>\<open>strings.Join\<close>.\<close>

fun Join :: "string list \<Rightarrow> string \<Rightarrow> string" where
  "Join [] sep = []"
| "Join [x] sep = x"
| "Join (x # y # ys) sep = x @ sep @ Join (y # ys) sep"

definition usage :: "arg \<Rightarrow> string" where
  "usage a =
     (let result0 = name a;
          result1 =
            (case result a of
               PBool _ \<Rightarrow> result0
             | PInt _ \<Rightarrow> result0 @ '' <integer>''
             | PFloat64 _ \<Rightarrow> result0 @ '' <float>''
             | PString _ \<Rightarrow>
                 (case selector a of
                    Some sel \<Rightarrow> result0 @ '' ('' @ Join sel ''|'' @ '')''
                  | None \<Rightarrow> result0 @ '' \"<value>\"'')
             | PFile _ \<Rightarrow> result0 @ '' <file>''
             | PStrings _ \<Rightarrow>
                 result0 @ '' \"<value>\"'' @ '' ['' @ result0 @ '' \"<value>\" ...]''
             | _ \<Rightarrow> result0)
      in if (case opts a of None \<Rightarrow> True | Some os \<Rightarrow> Required os = False)
         then ''['' @ result1 @ '']'' else result1)"

section \<open>The functions of package \<^verbatim>\<open>strings\<close> the file calls\<close>

definition HasPrefix :: "string \<Rightarrow> string \<Rightarrow> bool" where
  "HasPrefix s prefix = (length prefix \<le> length s \<and> take (length prefix) s = prefix)"

text \<open>
  \<^verbatim>\<open>strings.Count\<close>: the number of non-overlapping instances of \<open>substr\<close> in \<open>s\<close>. For
  an empty \<open>substr\<close> Go counts the code points of \<open>s\<close> plus one; the model counts bytes
  there, which is the same on ASCII text, and the file never calls it so
  (\<^verbatim>\<open>o.sname != ""\<close> guards the call).
\<close>

fun Count :: "string \<Rightarrow> string \<Rightarrow> nat" where
  "Count [] substr = (if substr = [] then 1 else 0)"
| "Count (c # s) substr =
     (if substr = [] then length (c # s) + 1
      else if take (length substr) (c # s) = substr
           then 1 + Count (drop (length substr) (c # s)) substr
      else Count s substr)"

definition Contains :: "string \<Rightarrow> string \<Rightarrow> bool" where
  "Contains s substr = (0 < Count s substr)"

text \<open>
  \<^verbatim>\<open>strings.Replace(s, old, new, -1)\<close>: every non-overlapping instance of \<open>old\<close>, from
  the left, replaced by \<open>new\<close>. The case of an empty \<open>old\<close> is by bytes, as for \<open>Count\<close>.
\<close>

fun Replace :: "string \<Rightarrow> string \<Rightarrow> string \<Rightarrow> string" where
  "Replace [] old new = (if old = [] then new else [])"
| "Replace (c # s) old new =
     (if old = [] then new @ c # Replace s old new
      else if take (length old) (c # s) = old
           then new @ Replace (drop (length old) (c # s)) old new
      else c # Replace s old new)"

section \<open>Matcher: \<^verbatim>\<open>check\<close>\<close>

definition check :: "arg \<Rightarrow> string \<Rightarrow> int outcome" where
  "check a argument =
     (if argument = ''-h'' \<or> argument = ''--help'' then Exit (parent a)
      else if lname a \<noteq> [] \<and> 2 < length argument \<and> HasPrefix argument ''--''
              \<and> argument ! 2 \<noteq> CHR ''-'' \<and> drop 2 argument = lname a
           then Return 1
      else if sname a \<noteq> [] \<and> 1 < length argument \<and> HasPrefix argument ''-''
              \<and> argument ! 1 \<noteq> CHR ''-''
           then (if size_arg a = 1 then Return (int (Count (drop 1 argument) (sname a)))
                 else if drop 1 argument = sname a then Return 1
                 else Return 0)
      else Return 0)"

section \<open>Consumer: \<^verbatim>\<open>reduce\<close>\<close>

text \<open>
  An index outside the slice is a run-time panic of Go: \<open>reduce\<close> returns \<open>Inl\<close> of it,
  or \<open>Inr\<close> of the slice as the call leaves it.
\<close>

datatype panic = IndexOutOfRange

text \<open>The loop \<^verbatim>\<open>for i := position; i < position+o.size; i++ { (*args)[i] = "" }\<close>.\<close>

function blank :: "int \<Rightarrow> int \<Rightarrow> string list \<Rightarrow> panic + string list" where
  "blank i lim args =
     (if i < lim
      then (if i < 0 \<or> int (length args) \<le> i then Inl IndexOutOfRange
            else blank (i + 1) lim (args[nat i := []]))
      else Inr args)"
  by pat_completeness auto
termination
  by (relation "measure (\<lambda>(i, lim, args). nat (lim - i))") auto

declare blank.simps [simp del]

definition reduce :: "arg \<Rightarrow> int \<Rightarrow> string list \<Rightarrow> panic + string list" where
  "reduce a position args =
     (if position < 0 \<or> int (length args) \<le> position then Inl IndexOutOfRange
      else
        let argument = args ! nat position;
            long =
              (if lname a \<noteq> [] \<and> 2 < length argument \<and> HasPrefix argument ''--''
                  \<and> argument ! 2 \<noteq> CHR ''-'' \<and> drop 2 argument = lname a
               then blank position (wrap_int (position + size_arg a)) args
               else Inr args)
        in case long of
             Inl p \<Rightarrow> Inl p
           | Inr args1 \<Rightarrow>
               (if sname a \<noteq> [] \<and> 1 < length argument \<and> HasPrefix argument ''-''
                   \<and> argument ! 1 \<noteq> CHR ''-''
                then (if size_arg a = 1
                      then (if Contains (drop 1 argument) (sname a)
                            then let r = Replace argument (sname a) []
                                 in Inr (args1[nat position := (if r = ''-'' then [] else r)])
                            else Inr args1)
                      else if drop 1 argument = sname a
                           then blank position (wrap_int (position + size_arg a)) args1
                      else Inr args1)
                else Inr args1))"

section \<open>The environment: \<^verbatim>\<open>strconv\<close> and the files of \<^verbatim>\<open>os\<close>\<close>

text \<open>
  \<^verbatim>\<open>strconv.Atoi\<close> and \<^verbatim>\<open>strconv.ParseFloat(_, 64)\<close> are parameters of the model: \<open>None\<close>
  is a conversion error (the file discards the error value and reports the argument).
\<close>

record strconv =
  Atoi :: "string \<Rightarrow> int option"
  ParseFloat :: "string \<Rightarrow> float64 option"

text \<open>
  The files: which \<^verbatim>\<open>OpenFile\<close> calls fail and with what message, which handles are
  open, the next handle to hand out, for which open handles the close itself reports
  an error, and the name each handle was opened with (the \<^verbatim>\<open>name\<close> an \<^verbatim>\<open>os.File\<close>
  keeps, which \<^verbatim>\<open>Close\<close> puts in its error).
\<close>

record world =
  open_err :: "string \<Rightarrow> int \<Rightarrow> 32 word \<Rightarrow> string option"
  close_err :: "handle \<Rightarrow> string option"
  live :: "handle list"
  fresh :: handle
  name_of :: "handle \<Rightarrow> string"

definition OpenFile :: "world \<Rightarrow> string \<Rightarrow> int \<Rightarrow> 32 word \<Rightarrow> (string + handle) \<times> world" where
  "OpenFile w nm flag perm =
     (case open_err w nm flag perm of
        Some e \<Rightarrow> (Inl e, w)
      | None \<Rightarrow>
          (Inr (fresh w),
           w\<lparr>live := live w @ [fresh w], fresh := Suc (fresh w),
             name_of := (name_of w)(fresh w := nm)\<rparr>))"

text \<open>
  Closing an open handle releases it, with the error of the close itself if there is one.
  Closing a handle that is not open is the error \<^verbatim>\<open>close <name>: file already closed\<close>
  (the \<^verbatim>\<open>PathError\<close> of \<^verbatim>\<open>os.File.Close\<close> around \<^verbatim>\<open>ErrClosed\<close>).
\<close>

definition already_closed :: "world \<Rightarrow> handle \<Rightarrow> string" where
  "already_closed w f = ''close '' @ name_of w f @ '': file already closed''"

definition Close :: "world \<Rightarrow> handle \<Rightarrow> string option \<times> world" where
  "Close w f =
     (if f \<in> set (live w) then (close_err w f, w\<lparr>live := removeAll f (live w)\<rparr>)
      else (Some (already_closed w f), w))"

section \<open>Binder: \<^verbatim>\<open>parse\<close>\<close>

text \<open>
  The loop \<^verbatim>\<open>for _, f := range files { if err := f.Close(); err != nil { errs = append(errs, err.Error()) } }\<close>
  of \<open>parse\<close> and \<open>setDefault\<close>.
\<close>

fun close_each :: "world \<Rightarrow> handle list \<Rightarrow> string list \<Rightarrow> string list \<times> world" where
  "close_each w [] errs = (errs, w)"
| "close_each w (f # fs) errs =
     (case Close w f of
        (None, w') \<Rightarrow> close_each w' fs errs
      | (Some e, w') \<Rightarrow> close_each w' fs (errs @ [e]))"

text \<open>What both functions do when \<^verbatim>\<open>os.OpenFile\<close> fails with \<open>e\<close> for a list of files.\<close>

definition open_failed :: "world \<Rightarrow> arg \<Rightarrow> handle list \<Rightarrow> string \<Rightarrow> error option \<times> arg \<times> world" where
  "open_failed w a held e =
     (case close_each w held [] of
        (errs, w') \<Rightarrow>
          (Some (if 0 < length errs then WhileHandling e errs else OsError e),
           a\<lparr>result := PFiles []\<rparr>, w'))"

text \<open>Lines 129 to 134: the validation function, when there is one.\<close>

definition validate :: "arg \<Rightarrow> string list \<Rightarrow> string option" where
  "validate a args =
     (case opts a of
        None \<Rightarrow> None
      | Some os \<Rightarrow> (case Validate os of None \<Rightarrow> None | Some v \<Rightarrow> v args))"

text \<open>Lines 136 to 282: the type switch of \<open>parse\<close> and the final \<^verbatim>\<open>return nil\<close>.\<close>

definition parse_switch ::
  "strconv \<Rightarrow> world \<Rightarrow> arg \<Rightarrow> string list \<Rightarrow> int \<Rightarrow> (error option \<times> arg \<times> world) outcome" where
  "parse_switch L w a args argCount =
     (case result a of
        PHelp \<Rightarrow> Exit (parent a)
      | PBool _ \<Rightarrow> Return (None, a\<lparr>result := PBool True, parsed := True\<rparr>, w)
      | PInt v \<Rightarrow>
          (case args of
             [] \<Rightarrow>
               (if 1 < size_arg a
                then Return (Some (MustBeFollowed (name a) ''an integer''), a, w)
                else Return (None, a\<lparr>result := PInt (wrap_int (v + argCount)), parsed := True\<rparr>, w))
           | [x] \<Rightarrow>
               (case Atoi L x of
                  None \<Rightarrow> Return (Some (BadInteger (name a) x), a, w)
                | Some val \<Rightarrow> Return (None, a\<lparr>result := PInt val, parsed := True\<rparr>, w))
           | _ \<Rightarrow> Return (Some (TooMany (name a)), a, w))
      | PFloat64 _ \<Rightarrow>
          (case args of
             [] \<Rightarrow> Return (Some (MustBeFollowed (name a) ''a floating point number''), a, w)
           | [x] \<Rightarrow>
               (case ParseFloat L x of
                  None \<Rightarrow> Return (Some (BadFloat (name a) x), a, w)
                | Some val \<Rightarrow> Return (None, a\<lparr>result := PFloat64 val, parsed := True\<rparr>, w))
           | _ \<Rightarrow> Return (Some (TooMany (name a)), a, w))
      | PString _ \<Rightarrow>
          (case args of
             [] \<Rightarrow> Return (Some (MustBeFollowed (name a) ''a string''), a, w)
           | [x] \<Rightarrow>
               (case selector a of
                  Some sel \<Rightarrow>
                    (if x \<in> set sel
                     then Return (None, a\<lparr>result := PString x, parsed := True\<rparr>, w)
                     else Return (Some (BadSelector (name a) sel), a, w))
                | None \<Rightarrow> Return (None, a\<lparr>result := PString x, parsed := True\<rparr>, w))
           | _ \<Rightarrow> Return (Some (TooMany (name a)), a, w))
      | PFile _ \<Rightarrow>
          (case args of
             [] \<Rightarrow> Return (Some (MustBeFollowed (name a) ''a path to file''), a, w)
           | [x] \<Rightarrow>
               (case OpenFile w x (fileFlag a) (filePerm a) of
                  (Inl e, w') \<Rightarrow> Return (Some (OsError e), a, w')
                | (Inr f, w') \<Rightarrow> Return (None, a\<lparr>result := PFile (Some f), parsed := True\<rparr>, w'))
           | _ \<Rightarrow> Return (Some (TooMany (name a)), a, w))
      | PStrings xs \<Rightarrow>
          (case args of
             [] \<Rightarrow> Return (Some (MustBeFollowed (name a) ''a string''), a, w)
           | [x] \<Rightarrow> Return (None, a\<lparr>result := PStrings (xs @ [x]), parsed := True\<rparr>, w)
           | _ \<Rightarrow> Return (Some (TooMany (name a)), a, w))
      | PInts xs \<Rightarrow>
          (case args of
             [] \<Rightarrow> Return (Some (MustBeFollowed (name a) ''a string representation of integer''), a, w)
           | [x] \<Rightarrow>
               (case Atoi L x of
                  None \<Rightarrow> Return (Some (BadInteger (name a) x), a, w)
                | Some val \<Rightarrow> Return (None, a\<lparr>result := PInts (xs @ [val]), parsed := True\<rparr>, w))
           | _ \<Rightarrow> Return (Some (TooMany (name a)), a, w))
      | PFloat64s xs \<Rightarrow>
          (case args of
             [] \<Rightarrow> Return (Some (MustBeFollowed (name a) ''a string representation of integer''), a, w)
           | [x] \<Rightarrow>
               (case ParseFloat L x of
                  None \<Rightarrow> Return (Some (BadFloat (name a) x), a, w)
                | Some val \<Rightarrow> Return (None, a\<lparr>result := PFloat64s (xs @ [val]), parsed := True\<rparr>, w))
           | _ \<Rightarrow> Return (Some (TooMany (name a)), a, w))
      | PFiles fs \<Rightarrow>
          (case args of
             [] \<Rightarrow> Return (Some (MustBeFollowed (name a) ''a path to file''), a, w)
           | [x] \<Rightarrow>
               (case OpenFile w x (fileFlag a) (filePerm a) of
                  (Inl e, w') \<Rightarrow> Return (open_failed w' a fs e)
                | (Inr f, w') \<Rightarrow> Return (None, a\<lparr>result := PFiles (fs @ [f]), parsed := True\<rparr>, w'))
           | _ \<Rightarrow> Return (Some (TooMany (name a)), a, w))
      | POther _ \<Rightarrow> Return (Some UnsupportedType, a, w))"

definition parse ::
  "strconv \<Rightarrow> world \<Rightarrow> arg \<Rightarrow> string list \<Rightarrow> int \<Rightarrow> (error option \<times> arg \<times> world) outcome" where
  "parse L w a args argCount =
     (if unique a \<and> (parsed a \<or> 1 < argCount)
      then Return (Some (OnlyOnce (name a)), a, w)
      else case validate a args of
             Some e \<Rightarrow> Return (Some (ValidateError e), a, w)
           | None \<Rightarrow> parse_switch L w a args argCount)"

section \<open>Default applier: \<^verbatim>\<open>setDefault\<close>\<close>

text \<open>
  The loop of lines 392 to 410 over the default's file names: \<open>held\<close> is the list the
  result slot holds (\<^verbatim>\<open>*o.result.(*[]os.File)\<close>, which the loop does not change before
  it returns), \<open>files\<close> the local slice of the files opened so far.
\<close>

fun open_each ::
  "world \<Rightarrow> arg \<Rightarrow> handle list \<Rightarrow> string list \<Rightarrow> handle list \<Rightarrow> error option \<times> arg \<times> world" where
  "open_each w a held [] files = (None, a\<lparr>result := PFiles files\<rparr>, w)"
| "open_each w a held (v # vs) files =
     (case OpenFile w v (fileFlag a) (filePerm a) of
        (Inl e, w') \<Rightarrow> open_failed w' a held e
      | (Inr f, w') \<Rightarrow> open_each w' a held vs (files @ [f]))"

definition mismatch :: "world \<Rightarrow> arg \<Rightarrow> dflt \<Rightarrow> string \<Rightarrow> error option \<times> arg \<times> world" where
  "mismatch w a d t = (Some (DefaultType (type_name d) t), a, w)"

definition default_switch :: "world \<Rightarrow> arg \<Rightarrow> dflt \<Rightarrow> error option \<times> arg \<times> world" where
  "default_switch w a d =
     (case result a of
        PBool _ \<Rightarrow>
          (case d of DBool v \<Rightarrow> (None, a\<lparr>result := PBool v\<rparr>, w) | _ \<Rightarrow> mismatch w a d ''bool'')
      | PInt _ \<Rightarrow>
          (case d of DInt v \<Rightarrow> (None, a\<lparr>result := PInt v\<rparr>, w) | _ \<Rightarrow> mismatch w a d ''int'')
      | PFloat64 _ \<Rightarrow>
          (case d of DFloat64 v \<Rightarrow> (None, a\<lparr>result := PFloat64 v\<rparr>, w)
           | _ \<Rightarrow> mismatch w a d ''float64'')
      | PString _ \<Rightarrow>
          (case d of DString v \<Rightarrow> (None, a\<lparr>result := PString v\<rparr>, w)
           | _ \<Rightarrow> mismatch w a d ''string'')
      | PFile _ \<Rightarrow>
          (case d of
             DString v \<Rightarrow>
               (case OpenFile w v (fileFlag a) (filePerm a) of
                  (Inl e, w') \<Rightarrow> (Some (OsError e), a, w')
                | (Inr f, w') \<Rightarrow> (None, a\<lparr>result := PFile (Some f)\<rparr>, w'))
           | _ \<Rightarrow> mismatch w a d ''string'')
      | PStrings _ \<Rightarrow>
          (case d of DStrings v \<Rightarrow> (None, a\<lparr>result := PStrings v\<rparr>, w)
           | _ \<Rightarrow> mismatch w a d ''[]string'')
      | PInts _ \<Rightarrow>
          (case d of DInts v \<Rightarrow> (None, a\<lparr>result := PInts v\<rparr>, w)
           | _ \<Rightarrow> mismatch w a d ''[]int'')
      | PFloat64s _ \<Rightarrow>
          (case d of DFloat64s v \<Rightarrow> (None, a\<lparr>result := PFloat64s v\<rparr>, w)
           | _ \<Rightarrow> mismatch w a d ''[]float64'')
      | PFiles held \<Rightarrow>
          (case d of DStrings fileNames \<Rightarrow> open_each w a held fileNames []
           | _ \<Rightarrow> mismatch w a d ''[]string'')
      | _ \<Rightarrow> (None, a, w))"

definition setDefault :: "world \<Rightarrow> arg \<Rightarrow> error option \<times> arg \<times> world" where
  "setDefault w a =
     (if \<not> parsed a
      then (case opts a of
              None \<Rightarrow> (None, a, w)
            | Some os \<Rightarrow>
                (case Default os of
                   None \<Rightarrow> (None, a, w)
                 | Some d \<Rightarrow> default_switch w a d))
      else (None, a, w))"

section \<open>Concrete inputs\<close>

text \<open>
  The inputs at which the theorems below are evaluated. In \<open>ex_world\<close> opening the
  name \<^verbatim>\<open>missing\<close> fails, and closing handle 1 reports an error.
\<close>

definition ex_strconv :: strconv where
  "ex_strconv = \<lparr>Atoi = (\<lambda>s. if s = ''5'' then Some 5 else None), ParseFloat = (\<lambda>s. None)\<rparr>"

definition ex_world :: world where
  "ex_world =
     \<lparr>open_err = (\<lambda>nm flag perm.
        if nm = ''missing'' then Some ''open missing: no such file or directory'' else None),
      close_err = (\<lambda>f. if f = 1 then Some ''close b: input/output error'' else None),
      live = [], fresh = 0, name_of = (\<lambda>f. [])\<rparr>"

definition ex_number :: arg where
  "ex_number =
     \<lparr>result = PInt 0, opts = None, sname = ''n'', lname = ''number'', size_arg = 2,
      unique = False, parsed = False, fileFlag = 0, filePerm = 0, selector = None,
      parent = ''usage: prog [-h|--help] [-n|--number <integer>]''\<rparr>"

definition ex_required :: Options where
  "ex_required = \<lparr>Required = True, Validate = None, Help = ''a number'', Default = None\<rparr>"

definition ex_rejecting :: Options where
  "ex_rejecting =
     \<lparr>Required = False, Validate = Some (\<lambda>args. Some ''rejected''), Help = [],
      Default = Some (DString ''seven'')\<rparr>"

definition ex_flag :: arg where
  "ex_flag =
     \<lparr>result = PBool False, opts = None, sname = ''v'', lname = ''verbose'', size_arg = 1,
      unique = True, parsed = False, fileFlag = 0, filePerm = 0, selector = None,
      parent = ''usage: prog [-h|--help] [-v|--verbose]''\<rparr>"

text \<open>
  A list of files that holds the handles 0 and 1 after two occurrences, in a world where
  both are open.
\<close>

definition ex_files :: arg where
  "ex_files =
     \<lparr>result = PFiles [0, 1], opts = None, sname = ''f'', lname = ''file'', size_arg = 2,
      unique = False, parsed = True, fileFlag = 0, filePerm = 0, selector = None,
      parent = ''usage: prog [-h|--help] [-f|--file <file>]''\<rparr>"

definition ex_world_open :: world where
  "ex_world_open =
     ex_world\<lparr>live := [0, 1], fresh := 2, name_of := (\<lambda>f. [])(0 := ''a'', 1 := ''b'')\<rparr>"

text \<open>A counter with the short name \<^verbatim>\<open>h\<close>, and a verbosity counter that holds 4.\<close>

definition ex_hops :: arg where
  "ex_hops =
     \<lparr>result = PInt 0, opts = None, sname = ''h'', lname = ''hops'', size_arg = 1,
      unique = False, parsed = False, fileFlag = 0, filePerm = 0, selector = None,
      parent = ''usage: prog [-h|--hops]''\<rparr>"

definition ex_verbosity :: arg where
  "ex_verbosity =
     \<lparr>result = PInt 4, opts = None, sname = ''v'', lname = ''verbosity'', size_arg = 1,
      unique = False, parsed = False, fileFlag = 0, filePerm = 0, selector = None,
      parent = ''usage: prog [-h|--help] [-v|--verbosity]''\<rparr>"

text \<open>
  A list of files that was not matched, with the default \<^verbatim>\<open>[]string{"a", "missing", "c"}\<close>,
  and an option whose result slot has a type outside the type switches, with a default.
\<close>

definition ex_file_defaults :: Options where
  "ex_file_defaults =
     \<lparr>Required = False, Validate = None, Help = ''input files'',
      Default = Some (DStrings [''a'', ''missing'', ''c''])\<rparr>"

definition ex_inputs :: arg where
  "ex_inputs =
     \<lparr>result = PFiles [], opts = Some ex_file_defaults, sname = ''i'', lname = ''input'',
      size_arg = 2, unique = False, parsed = False, fileFlag = 0, filePerm = 0, selector = None,
      parent = ''usage: prog [-h|--help] [-i|--input <file>]''\<rparr>"

definition ex_other :: arg where
  "ex_other =
     \<lparr>result = POther ''*uint'',
      opts = Some \<lparr>Required = False, Validate = None, Help = ''a size'', Default = Some (DInt 3)\<rparr>,
      sname = ''s'', lname = ''size'', size_arg = 2, unique = False, parsed = False,
      fileFlag = 0, filePerm = 0, selector = None,
      parent = ''usage: prog [-h|--help] [-s|--size]''\<rparr>"

section \<open>Properties\<close>

subsection \<open>Auxiliary facts\<close>

lemma close_each_live:
  "live (snd (close_each w fs errs)) = filter (\<lambda>f. f \<notin> set fs) (live w)"
proof (induction fs arbitrary: w errs)
  case Nil
  then show ?case by simp
next
  case (Cons f fs)
  show ?case
  proof (cases "f \<in> set (live w)")
    case True
    have "filter (\<lambda>g. g \<notin> set fs) (removeAll f (live w)) = filter (\<lambda>g. g \<notin> set (f # fs)) (live w)"
      by (induction "live w" arbitrary: w) (auto simp: removeAll_filter_not_eq intro: filter_cong)
    with True show ?thesis
      by (simp add: Close_def Cons.IH split: option.splits)
  next
    case False
    have "filter (\<lambda>g. g \<notin> set (f # fs)) (live w) = filter (\<lambda>g. g \<notin> set fs) (live w)"
      using False by (intro filter_cong) auto
    with False show ?thesis
      by (simp add: Close_def Cons.IH)
  qed
qed

lemma close_each_frame:
  "open_err (snd (close_each w fs errs)) = open_err w
   \<and> close_err (snd (close_each w fs errs)) = close_err w
   \<and> fresh (snd (close_each w fs errs)) = fresh w
   \<and> name_of (snd (close_each w fs errs)) = name_of w"
  by (induction fs arbitrary: w errs) (auto simp: Close_def split: option.splits)

lemma map_filter_map: "List.map_filter f (map g xs) = List.map_filter (f \<circ> g) xs"
  by (induction xs) (simp_all split: option.splits)

lemma map_filter_eqI:
  "(\<And>x. x \<in> set xs \<Longrightarrow> f x = g x) \<Longrightarrow> List.map_filter f xs = List.map_filter g xs"
  by (induction xs) (simp_all split: option.splits)

text \<open>
  What the loop of closes reports for the handle at index \<open>i\<close>: the error of the close
  itself when the handle is open and was not closed at an earlier index, and the error
  of closing a file that is already closed otherwise.
\<close>

lemma close_each_errs:
  "fst (close_each w fs errs) =
     errs @ List.map_filter
              (\<lambda>i. if fs ! i \<in> set (live w) \<and> fs ! i \<notin> set (take i fs)
                   then close_err w (fs ! i) else Some (already_closed w (fs ! i)))
              [0..<length fs]"
proof (induction fs arbitrary: w errs)
  case Nil
  then show ?case by simp
next
  case (Cons f fs)
  let ?r = "\<lambda>w fs i. if fs ! i \<in> set (live w) \<and> fs ! i \<notin> set (take i fs)
                      then close_err w (fs ! i) else Some (already_closed w (fs ! i))"
  have upt: "[0..<length (f # fs)] = 0 # map Suc [0..<length fs]"
    by (simp add: upt_conv_Cons map_Suc_upt del: upt_Suc)
  have tail: "List.map_filter (?r w (f # fs)) (map Suc [0..<length fs])
                = List.map_filter (?r w' fs) [0..<length fs]"
    if w': "live w' = (if f \<in> set (live w) then removeAll f (live w) else live w)"
           "close_err w' = close_err w" "name_of w' = name_of w" for w'
    unfolding map_filter_map
  proof (rule map_filter_eqI)
    fix i assume "i \<in> set [0..<length fs]"
    show "(?r w (f # fs) \<circ> Suc) i = ?r w' fs i"
      using w' by (auto simp: already_closed_def)
  qed
  show ?case
  proof (cases "f \<in> set (live w)")
    case True
    let ?w = "w\<lparr>live := removeAll f (live w)\<rparr>"
    have t: "List.map_filter (?r w (f # fs)) (map Suc [0..<length fs])
               = List.map_filter (?r ?w fs) [0..<length fs]"
      using True by (intro tail) simp_all
    show ?thesis
      unfolding upt using True
      by (cases "close_err w f") (simp_all add: Close_def Cons.IH t del: upt_Suc)
  next
    case False
    have t: "List.map_filter (?r w (f # fs)) (map Suc [0..<length fs])
               = List.map_filter (?r w fs) [0..<length fs]"
      using False by (intro tail) simp_all
    show ?thesis
      unfolding upt using False
      by (simp add: Close_def Cons.IH t del: upt_Suc)
  qed
qed

text \<open>When every handle of the list is open and none occurs twice, these are the errors
  of the closes themselves, in the order of the list.\<close>

lemma close_each_errs_open:
  assumes "distinct fs" and "set fs \<subseteq> set (live w)"
  shows "fst (close_each w fs errs) = errs @ List.map_filter (close_err w) fs"
proof -
  have "List.map_filter
          (\<lambda>i. if fs ! i \<in> set (live w) \<and> fs ! i \<notin> set (take i fs)
               then close_err w (fs ! i) else Some (already_closed w (fs ! i)))
          [0..<length fs]
        = List.map_filter (close_err w \<circ> (\<lambda>i. fs ! i)) [0..<length fs]"
  proof (rule map_filter_eqI)
    fix i assume "i \<in> set [0..<length fs]"
    then have i: "i < length fs" by simp
    then have "fs ! i \<in> set (live w)" using assms(2) by auto
    moreover have "fs ! i \<notin> set (take i fs)"
      using assms(1) i by (auto simp: in_set_conv_nth distinct_conv_nth)
    ultimately show "(if fs ! i \<in> set (live w) \<and> fs ! i \<notin> set (take i fs)
               then close_err w (fs ! i) else Some (already_closed w (fs ! i)))
             = (close_err w \<circ> (\<lambda>i. fs ! i)) i"
      by simp
  qed
  also have "\<dots> = List.map_filter (close_err w) (map (\<lambda>i. fs ! i) [0..<length fs])"
    by (simp only: map_filter_map)
  also have "map (\<lambda>i. fs ! i) [0..<length fs] = fs"
    by (rule map_nth)
  finally show ?thesis by (simp add: close_each_errs)
qed

lemma blank_spec:
  "0 \<le> i \<Longrightarrow> lim \<le> int (length args) \<Longrightarrow>
   blank i lim args =
     Inr (map (\<lambda>k. if i \<le> int k \<and> int k < lim then [] else args ! k) [0..<length args])"
proof (induction i lim args rule: blank.induct)
  case (1 i lim args)
  show ?case
  proof (cases "i < lim")
    case False
    then have "map (\<lambda>k. if i \<le> int k \<and> int k < lim then [] else args ! k) [0..<length args] = args"
      by (intro nth_equalityI) auto
    with False show ?thesis by (simp add: blank.simps [of i lim args])
  next
    case True
    with "1.prems" have inr: "\<not> (i < 0 \<or> int (length args) \<le> i)" by auto
    have "blank i lim args = blank (i + 1) lim (args[nat i := []])"
      using True inr by (simp add: blank.simps [of i lim args])
    also have "\<dots> = Inr (map (\<lambda>k. if i + 1 \<le> int k \<and> int k < lim then [] else (args[nat i := []]) ! k)
                         [0..<length (args[nat i := []])])"
      using "1.IH" [OF True inr] "1.prems" by simp
    also have "map (\<lambda>k. if i + 1 \<le> int k \<and> int k < lim then [] else (args[nat i := []]) ! k)
                         [0..<length (args[nat i := []])]
         = map (\<lambda>k. if i \<le> int k \<and> int k < lim then [] else args ! k) [0..<length args]"
    proof -
      have "(if i + 1 \<le> int k \<and> int k < lim then [] else (args[nat i := []]) ! k)
            = (if i \<le> int k \<and> int k < lim then [] else args ! k)" if k: "k < length args" for k
      proof (cases "int k = i")
        case True
        then have "nat i = k" by simp
        with True k \<open>i < lim\<close> show ?thesis by (simp add: nth_list_update)
      next
        case False
        then have "nat i \<noteq> k" using "1.prems" by auto
        with False k show ?thesis by (auto simp: nth_list_update)
      qed
      then show ?thesis by simp
    qed
    finally show ?thesis .
  qed
qed

lemma Count_replicate: "Count (replicate N c) [c] = N"
  by (induction N) simp_all


subsection \<open>Presenter\<close>

text \<open>
  C9. For an integer option with short name \<^verbatim>\<open>n\<close> and long name \<^verbatim>\<open>number\<close>, \<open>name\<close>
  renders \<^verbatim>\<open>-n|--number\<close>, and \<open>usage\<close> renders \<^verbatim>\<open>-n|--number <integer>\<close> without
  brackets when the option is required (\<^verbatim>\<open>o.opts\<close> is not nil and \<^verbatim>\<open>Required\<close> is
  true) and \<^verbatim>\<open>[-n|--number <integer>]\<close> when it is not.
\<close>

theorem usage_n_number:
  assumes "sname a = ''n''" and "lname a = ''number''" and "result a = PInt v"
  shows "name a = ''-n|--number'' \<and>
         usage a = (if (case opts a of None \<Rightarrow> False | Some os \<Rightarrow> Required os)
                    then ''-n|--number <integer>'' else ''[-n|--number <integer>]'')"
  using assms by (simp add: usage_def name_def split: option.splits)

theorem usage_n_number_witness:
  "usage (ex_number\<lparr>opts := Some ex_required\<rparr>) = ''-n|--number <integer>'' \<and>
   usage ex_number = ''[-n|--number <integer>]''"
  using usage_n_number [of "ex_number\<lparr>opts := Some ex_required\<rparr>" 0]
        usage_n_number [of ex_number 0]
  by (simp add: ex_number_def ex_required_def)

subsection \<open>Binder: uniqueness and the \<open>parsed\<close> flag\<close>

text \<open>
  C7. For an option with \<open>unique\<close> set, \<open>parse\<close> returns the error
  \<^verbatim>\<open>[name] can only be present once\<close>, naming the option, whenever \<open>parsed\<close> is already
  true or the occurrence count is greater than 1. The check comes first: the result is
  the same for every validation function, every result type and every list of captured
  arguments, and the option and the files are left as they were.
\<close>

theorem parse_unique_duplicate:
  assumes "unique a" and "parsed a \<or> 1 < argCount"
  shows "parse L w a args argCount = Return (Some (OnlyOnce (name a)), a, w)"
  using assms by (simp add: parse_def)

theorem parse_unique_duplicate_witness:
  "parse ex_strconv ex_world (ex_number\<lparr>unique := True, parsed := True, opts := Some ex_rejecting\<rparr>) [''x''] 1
     = Return (Some (OnlyOnce ''-n|--number''),
               ex_number\<lparr>unique := True, parsed := True, opts := Some ex_rejecting\<rparr>, ex_world)
   \<and> parse ex_strconv ex_world (ex_number\<lparr>unique := True, opts := Some ex_rejecting\<rparr>) [''x''] 2
     = Return (Some (OnlyOnce ''-n|--number''),
               ex_number\<lparr>unique := True, opts := Some ex_rejecting\<rparr>, ex_world)
   \<and> parse ex_strconv ex_world (ex_number\<lparr>unique := True, opts := Some ex_rejecting\<rparr>) [''x''] 1
     = Return (Some (ValidateError ''rejected''),
               ex_number\<lparr>unique := True, opts := Some ex_rejecting\<rparr>, ex_world)"
  using parse_unique_duplicate
          [of "ex_number\<lparr>unique := True, parsed := True, opts := Some ex_rejecting\<rparr>" 1 ex_strconv ex_world "[''x'']"]
        parse_unique_duplicate
          [of "ex_number\<lparr>unique := True, opts := Some ex_rejecting\<rparr>" 2 ex_strconv ex_world "[''x'']"]
  by (simp add: ex_number_def ex_rejecting_def name_def parse_def validate_def)

lemma parse_switch_parsed:
  assumes "parse_switch L w a args argCount = Return (r, a', w')"
  shows "(r \<noteq> None \<longrightarrow> parsed a' = parsed a) \<and> (r = None \<longrightarrow> parsed a')"
  using assms
  by (auto simp: parse_switch_def open_failed_def split: result.splits list.splits option.splits
        if_splits prod.splits sum.splits)

lemma parse_switch_Exit:
  "parse_switch L w a args argCount = Exit t \<longleftrightarrow> result a = PHelp \<and> t = parent a"
  by (auto simp: parse_switch_def open_failed_def split: result.splits list.splits option.splits
        if_splits prod.splits sum.splits)

text \<open>
  C10. Whatever the option and the input, \<open>parse\<close> either prints the help and exits
  (only for the help option) or returns; when it returns an error, \<open>parsed\<close> is what it
  was before the call; a \<open>parsed\<close> that was true stays true; and \<open>parsed\<close> goes from
  false to true only when no error is returned.
\<close>

theorem parse_parsed_flag:
  "case parse L w a args argCount of
     Exit t \<Rightarrow> result a = PHelp
   | Return (r, a', w') \<Rightarrow>
       (r \<noteq> None \<longrightarrow> parsed a' = parsed a) \<and> (parsed a \<longrightarrow> parsed a')
       \<and> (parsed a' \<and> \<not> parsed a \<longrightarrow> r = None)"
proof (cases "parse L w a args argCount")
  case (Exit t)
  then have "parse_switch L w a args argCount = Exit t"
    by (auto simp: parse_def split: if_splits option.splits)
  with Exit show ?thesis by (simp add: parse_switch_Exit)
next
  case (Return x)
  obtain r a' w' where x: "x = (r, a', w')" by (cases x)
  show ?thesis
  proof (cases "parse_switch L w a args argCount = Return (r, a', w')")
    case True
    from parse_switch_parsed [OF True] Return x show ?thesis by auto
  next
    case False
    with Return x have "a' = a \<and> r \<noteq> None"
      by (auto simp: parse_def split: if_splits option.splits)
    with Return x show ?thesis by simp
  qed
qed

theorem parse_parsed_flag_witness:
  "parse ex_strconv ex_world ex_number [''x''] 1
     = Return (Some (BadInteger ''-n|--number'' ''x''), ex_number, ex_world)
   \<and> parsed ex_number = False
   \<and> parse ex_strconv ex_world ex_number [''5''] 1
     = Return (None, ex_number\<lparr>result := PInt 5, parsed := True\<rparr>, ex_world)
   \<and> parse ex_strconv ex_world (ex_number\<lparr>parsed := True\<rparr>) [''x''] 1
     = Return (Some (BadInteger ''-n|--number'' ''x''), ex_number\<lparr>parsed := True\<rparr>, ex_world)"
  using parse_parsed_flag [where L = ex_strconv and w = ex_world and a = ex_number
                             and args = "[''x'']" and argCount = 1]
        parse_parsed_flag [where L = ex_strconv and w = ex_world and a = ex_number
                             and args = "[''5'']" and argCount = 1]
        parse_parsed_flag [where L = ex_strconv and w = ex_world
                             and a = "ex_number\<lparr>parsed := True\<rparr>"
                             and args = "[''x'']" and argCount = 1]
  by (simp add: ex_number_def ex_strconv_def parse_def validate_def parse_switch_def name_def)

subsection \<open>Default applier\<close>

lemma setDefault_mismatch:
  assumes "\<not> parsed a" and "opts a = Some os" and "Default os = Some (DString s)"
    and "result a = PInt v"
  shows "setDefault w a = (Some (DefaultType ''string'' ''int''), a, w)"
  using assms by (simp add: setDefault_def default_switch_def mismatch_def)

text \<open>
  C8. For an option with \<open>parsed\<close> true, \<open>setDefault\<close> returns no error and changes
  neither the option nor the files, whatever the declared default and the type of the
  result slot: a default of the wrong type is reported only when the option was not
  parsed and the default is applied.
\<close>

theorem setDefault_parsed_noop:
  assumes "parsed a"
  shows "setDefault w a = (None, a, w)"
  using assms by (simp add: setDefault_def)

theorem setDefault_parsed_noop_witness:
  "setDefault ex_world (ex_number\<lparr>parsed := True, opts := Some ex_rejecting\<rparr>)
     = (None, ex_number\<lparr>parsed := True, opts := Some ex_rejecting\<rparr>, ex_world)
   \<and> setDefault ex_world (ex_number\<lparr>opts := Some ex_rejecting\<rparr>)
     = (Some (DefaultType ''string'' ''int''), ex_number\<lparr>opts := Some ex_rejecting\<rparr>, ex_world)"
  using setDefault_parsed_noop [of "ex_number\<lparr>parsed := True, opts := Some ex_rejecting\<rparr>" ex_world]
        setDefault_mismatch [of "ex_number\<lparr>opts := Some ex_rejecting\<rparr>" ex_rejecting "''seven''" 0 ex_world]
  by (simp add: ex_number_def ex_rejecting_def)

subsection \<open>Binder: the boolean case\<close>

text \<open>
  C4, as stated, asks that binding a boolean slot with a non-empty list of captured
  arguments fails with an arity error. The case \<^verbatim>\<open>*bool\<close> of \<open>parse\<close> never looks at
  the list: with one captured argument the flag is bound and no error is returned.
\<close>

theorem parse_bool_nonempty_counterexample:
  "parse ex_strconv ex_world ex_flag [''payload''] 1
     = Return (None, ex_flag\<lparr>result := PBool True, parsed := True\<rparr>, ex_world)"
  by (simp add: parse_def parse_switch_def validate_def ex_flag_def)

text \<open>
  C4, amended. For a boolean slot, when the uniqueness check and the validation
  function let the call through, \<open>parse\<close> sets the slot to true and \<open>parsed\<close> to true
  and returns no error, for every list of captured arguments, empty or not.
\<close>

theorem parse_bool_ignores_args:
  assumes "result a = PBool b"
    and "\<not> (unique a \<and> (parsed a \<or> 1 < argCount))"
    and "validate a args = None"
  shows "parse L w a args argCount = Return (None, a\<lparr>result := PBool True, parsed := True\<rparr>, w)"
  using assms by (simp add: parse_def parse_switch_def)

theorem parse_bool_ignores_args_witness:
  "parse ex_strconv ex_world ex_flag [] 1
     = Return (None, ex_flag\<lparr>result := PBool True, parsed := True\<rparr>, ex_world)
   \<and> parse ex_strconv ex_world ex_flag [''a'', ''b''] 1
     = Return (None, ex_flag\<lparr>result := PBool True, parsed := True\<rparr>, ex_world)"
  using parse_bool_ignores_args [of ex_flag False 1 "[]" ex_strconv ex_world]
        parse_bool_ignores_args [of ex_flag False 1 "[''a'', ''b'']" ex_strconv ex_world]
  by (simp add: ex_flag_def validate_def)

subsection \<open>Binder: a list of files\<close>

text \<open>
  C1. For a slot that is a list of files holding \<open>fs\<close>, when \<open>parse\<close> is called with
  one captured argument \<open>x\<close>, the uniqueness check and the validation function let the
  call through, and opening \<open>x\<close> fails with \<open>e\<close>: \<open>parse\<close> calls \<open>Close\<close> on every
  handle of \<open>fs\<close> in order, so that none of them is open afterwards; the slot is the
  empty list; \<open>parsed\<close> is unchanged; and the error returned is \<open>e\<close> alone when every
  close succeeded, and otherwise the composite of \<open>e\<close> and the messages of the closes
  that failed. Those messages are, in the order of the list, for each handle that is
  open and not closed at an earlier index the error of its close, if any, and for every
  other handle the error of closing a file that is already closed; when the handles of
  \<open>fs\<close> are all open and distinct they are exactly the errors of the closes themselves.
\<close>

theorem parse_files_open_failure:
  assumes "result a = PFiles fs"
    and "\<not> (unique a \<and> (parsed a \<or> 1 < argCount))"
    and "validate a [x] = None"
    and "open_err w x (fileFlag a) (filePerm a) = Some e"
  shows "parse L w a [x] argCount =
           Return (Some (if fst (close_each w fs []) = [] then OsError e
                         else WhileHandling e (fst (close_each w fs []))),
                   a\<lparr>result := PFiles []\<rparr>, snd (close_each w fs []))
         \<and> live (snd (close_each w fs [])) = filter (\<lambda>f. f \<notin> set fs) (live w)
         \<and> set fs \<inter> set (live (snd (close_each w fs []))) = {}
         \<and> fst (close_each w fs []) =
               List.map_filter
                 (\<lambda>i. if fs ! i \<in> set (live w) \<and> fs ! i \<notin> set (take i fs)
                      then close_err w (fs ! i) else Some (already_closed w (fs ! i)))
                 [0..<length fs]
         \<and> (distinct fs \<and> set fs \<subseteq> set (live w)
              \<longrightarrow> fst (close_each w fs []) = List.map_filter (close_err w) fs)"
proof -
  have "parse L w a [x] argCount = Return (open_failed w a fs e)"
    using assms by (auto simp: parse_def parse_switch_def OpenFile_def)
  moreover have "open_failed w a fs e =
      (Some (if fst (close_each w fs []) = [] then OsError e
             else WhileHandling e (fst (close_each w fs []))),
       a\<lparr>result := PFiles []\<rparr>, snd (close_each w fs []))"
    by (cases "close_each w fs []") (simp add: open_failed_def)
  ultimately have ret: "parse L w a [x] argCount =
           Return (Some (if fst (close_each w fs []) = [] then OsError e
                         else WhileHandling e (fst (close_each w fs []))),
                   a\<lparr>result := PFiles []\<rparr>, snd (close_each w fs []))"
    by simp
  have lv: "live (snd (close_each w fs [])) = filter (\<lambda>f. f \<notin> set fs) (live w)"
    by (rule close_each_live)
  have dis: "set fs \<inter> set (live (snd (close_each w fs []))) = {}"
    unfolding lv by auto
  have errs: "fst (close_each w fs []) =
               List.map_filter
                 (\<lambda>i. if fs ! i \<in> set (live w) \<and> fs ! i \<notin> set (take i fs)
                      then close_err w (fs ! i) else Some (already_closed w (fs ! i)))
                 [0..<length fs]"
    using close_each_errs [of w fs "[]"] by simp
  have opn: "fst (close_each w fs []) = List.map_filter (close_err w) fs"
    if "distinct fs" "set fs \<subseteq> set (live w)"
    using close_each_errs_open [OF that, of "[]"] by simp
  from ret lv dis errs opn show ?thesis by blast
qed

theorem parse_files_open_failure_witness:
  "parse ex_strconv ex_world_open ex_files [''missing''] 1
     = Return (Some (WhileHandling ''open missing: no such file or directory''
                       [''close b: input/output error'']),
               ex_files\<lparr>result := PFiles []\<rparr>, ex_world_open\<lparr>live := []\<rparr>)
   \<and> List.map_filter (close_err ex_world_open) [0, 1] = [''close b: input/output error'']
   \<and> parse ex_strconv (ex_world_open\<lparr>live := [1]\<rparr>) ex_files [''missing''] 1
     = Return (Some (WhileHandling ''open missing: no such file or directory''
                       [''close a: file already closed'', ''close b: input/output error'']),
               ex_files\<lparr>result := PFiles []\<rparr>, ex_world_open\<lparr>live := []\<rparr>)"
proof -
  have h1: "result ex_files = PFiles [0, 1]"
    and h2: "\<not> (unique ex_files \<and> (parsed ex_files \<or> 1 < (1::int)))"
    and h3: "validate ex_files [''missing''] = None"
    and h4: "open_err ex_world_open ''missing'' (fileFlag ex_files) (filePerm ex_files)
               = Some ''open missing: no such file or directory''"
    and h4': "open_err (ex_world_open\<lparr>live := [1]\<rparr>) ''missing'' (fileFlag ex_files)
                (filePerm ex_files) = Some ''open missing: no such file or directory''"
    and h5: "distinct [0::nat, 1] \<and> set [0, 1] \<subseteq> set (live ex_world_open)"
    by (simp_all add: ex_files_def ex_world_open_def ex_world_def validate_def)
  have m: "List.map_filter (close_err ex_world_open) [0, 1] = [''close b: input/output error'']"
    by (simp add: ex_world_open_def ex_world_def)
  have s: "snd (close_each ex_world_open [0, 1] []) = ex_world_open\<lparr>live := []\<rparr>"
    by (simp add: ex_world_open_def ex_world_def Close_def)
  have c': "close_each (ex_world_open\<lparr>live := [1]\<rparr>) [0, 1] []
             = ([''close a: file already closed'', ''close b: input/output error''],
                ex_world_open\<lparr>live := []\<rparr>)"
    by (simp add: ex_world_open_def ex_world_def Close_def already_closed_def)
  note t = parse_files_open_failure [OF h1 h2 h3 h4, of ex_strconv]
  from t have p: "parse ex_strconv ex_world_open ex_files [''missing''] 1 =
      Return (Some (if fst (close_each ex_world_open [0, 1] []) = []
                    then OsError ''open missing: no such file or directory''
                    else WhileHandling ''open missing: no such file or directory''
                           (fst (close_each ex_world_open [0, 1] []))),
              ex_files\<lparr>result := PFiles []\<rparr>, snd (close_each ex_world_open [0, 1] []))"
    by (rule conjunct1)
  from t h5 have e: "fst (close_each ex_world_open [0, 1] [])
                       = List.map_filter (close_err ex_world_open) [0, 1]"
    by blast
  have first: "parse ex_strconv ex_world_open ex_files [''missing''] 1
     = Return (Some (WhileHandling ''open missing: no such file or directory''
                       [''close b: input/output error'']),
               ex_files\<lparr>result := PFiles []\<rparr>, ex_world_open\<lparr>live := []\<rparr>)"
    unfolding p e m s by simp
  note t' = parse_files_open_failure [OF h1 h2 h3 h4', of ex_strconv]
  from t' have p': "parse ex_strconv (ex_world_open\<lparr>live := [1]\<rparr>) ex_files [''missing''] 1 =
      Return (Some (if fst (close_each (ex_world_open\<lparr>live := [1]\<rparr>) [0, 1] []) = []
                    then OsError ''open missing: no such file or directory''
                    else WhileHandling ''open missing: no such file or directory''
                           (fst (close_each (ex_world_open\<lparr>live := [1]\<rparr>) [0, 1] []))),
              ex_files\<lparr>result := PFiles []\<rparr>,
              snd (close_each (ex_world_open\<lparr>live := [1]\<rparr>) [0, 1] []))"
    by (rule conjunct1)
  have second: "parse ex_strconv (ex_world_open\<lparr>live := [1]\<rparr>) ex_files [''missing''] 1
     = Return (Some (WhileHandling ''open missing: no such file or directory''
                       [''close a: file already closed'', ''close b: input/output error'']),
               ex_files\<lparr>result := PFiles []\<rparr>, ex_world_open\<lparr>live := []\<rparr>)"
    unfolding p' c' by simp
  from first m second show ?thesis by (intro conjI)
qed

subsection \<open>Consumer\<close>

lemma wrap_int_id: "- (2 ^ 63) \<le> x \<Longrightarrow> x < 2 ^ 63 \<Longrightarrow> wrap_int x = x"
  by (simp add: wrap_int_def)

text \<open>
  C3, as stated, takes the arity to be the number of value tokens (1 for a scalar
  option) and asks that the tokens from \<open>p\<close> to \<open>p + arity - 1\<close> are blanked and all
  others unchanged. For the scalar option \<^verbatim>\<open>--number\<close> (one value token, \<^verbatim>\<open>size\<close> 2) at
  position 0 that is token 0 alone; \<open>reduce\<close> blanks the value token at position 1 too.
\<close>

theorem reduce_value_token_counterexample:
  "size_arg ex_number - 1 = 1
   \<and> reduce ex_number 0 [''--number'', ''7'', ''rest''] = Inr [[], [], ''rest'']
   \<and> reduce ex_number 0 [''--number'', ''7'', ''rest''] \<noteq> Inr [[], ''7'', ''rest'']"
  by (simp add: reduce_def ex_number_def HasPrefix_def wrap_int_def blank.simps)

text \<open>
  C3, amended. The field \<^verbatim>\<open>size\<close> counts the match token and its value tokens:
  \<open>size_arg a = arity + 1\<close>. For a long-name match (the token is \<^verbatim>\<open>--\<close> and the long
  name) or a non-combinable short-name match (\<open>arity\<close> is not 0 and the token is \<^verbatim>\<open>-\<close>
  and the short name) at position \<open>p\<close>, with the value tokens inside the sequence,
  \<open>reduce\<close> blanks every token from \<open>p\<close> through \<open>p + arity\<close> inclusive and leaves every
  other token unchanged.
\<close>

theorem reduce_blanks_match_and_values:
  assumes "size_arg a = int arity + 1"
    and "p + arity < length args"
    and "int (length args) < 2 ^ 63"
    and "(lname a \<noteq> [] \<and> hd (lname a) \<noteq> CHR ''-'' \<and> args ! p = ''--'' @ lname a)
         \<or> (arity \<noteq> 0 \<and> sname a \<noteq> [] \<and> hd (sname a) \<noteq> CHR ''-'' \<and> args ! p = ''-'' @ sname a)"
  shows "reduce a (int p) args =
           Inr (map (\<lambda>i. if p \<le> i \<and> i \<le> p + arity then [] else args ! i) [0..<length args])"
proof -
  let ?lim = "int p + size_arg a"
  have lim: "wrap_int ?lim = ?lim"
    using assms(1-3) by (intro wrap_int_id) auto
  have "blank (int p) ?lim args =
          Inr (map (\<lambda>k. if int p \<le> int k \<and> int k < ?lim then [] else args ! k) [0..<length args])"
    using assms(1,2) by (intro blank_spec) auto
  moreover have "(\<lambda>k. if int p \<le> int k \<and> int k < ?lim then [] else args ! k)
                 = (\<lambda>i. if p \<le> i \<and> i \<le> p + arity then [] else args ! i)"
    using assms(1) by (intro ext) auto
  ultimately have b: "blank (int p) (wrap_int ?lim) args =
          Inr (map (\<lambda>i. if p \<le> i \<and> i \<le> p + arity then [] else args ! i) [0..<length args])"
    by (simp only: lim)
  have p: "\<not> (int p < 0 \<or> int (length args) \<le> int p)"
    using assms(2) by simp
  from assms(4) show ?thesis
  proof
    assume l: "lname a \<noteq> [] \<and> hd (lname a) \<noteq> CHR ''-'' \<and> args ! p = ''--'' @ lname a"
    then obtain c cs where cs: "lname a = c # cs" and c: "c \<noteq> CHR ''-''"
      by (cases "lname a") auto
    with l have arg: "args ! p = CHR ''-'' # CHR ''-'' # c # cs" by simp
    show ?thesis
      using p cs c b by (simp add: reduce_def arg HasPrefix_def)
  next
    assume s: "arity \<noteq> 0 \<and> sname a \<noteq> [] \<and> hd (sname a) \<noteq> CHR ''-'' \<and> args ! p = ''-'' @ sname a"
    then obtain c cs where cs: "sname a = c # cs" and c: "c \<noteq> CHR ''-''"
      by (cases "sname a") auto
    with s have arg: "args ! p = CHR ''-'' # c # cs" by simp
    from s assms(1) have sz: "size_arg a \<noteq> 1" by simp
    show ?thesis
      using p cs c b sz by (simp add: reduce_def arg HasPrefix_def)
  qed
qed

theorem reduce_blanks_match_and_values_witness:
  "reduce ex_number 1 [''prog'', ''--number'', ''7'', ''rest''] = Inr [''prog'', [], [], ''rest'']
   \<and> reduce ex_number 0 [''-n'', ''7'', ''rest''] = Inr [[], [], ''rest'']
   \<and> reduce ex_flag 0 [''--verbose'', ''rest''] = Inr [[], ''rest'']"
proof -
  have u3: "[0..<3] = [0, 1, 2]" and u4: "[0..<4] = [0, 1, 2, 3]" and u2: "[0..<2] = [0, 1]"
    by (simp_all add: upt_rec)
  have "reduce ex_number (int 1) [''prog'', ''--number'', ''7'', ''rest'']
          = Inr [''prog'', [], [], ''rest'']"
    using reduce_blanks_match_and_values
            [of ex_number 1 1 "[''prog'', ''--number'', ''7'', ''rest'']"]
    by (simp add: ex_number_def u4)
  moreover have "reduce ex_number (int 0) [''-n'', ''7'', ''rest''] = Inr [[], [], ''rest'']"
    using reduce_blanks_match_and_values [of ex_number 1 0 "[''-n'', ''7'', ''rest'']"]
    by (simp add: ex_number_def u3)
  moreover have "reduce ex_flag (int 0) [''--verbose'', ''rest''] = Inr [[], ''rest'']"
    using reduce_blanks_match_and_values [of ex_flag 0 0 "[''--verbose'', ''rest'']"]
    by (simp add: ex_flag_def u2)
  ultimately show ?thesis by simp
qed

subsection \<open>Matcher and counter\<close>

text \<open>
  C6, as stated, covers every short name character and every number of repeats. For
  the character \<^verbatim>\<open>h\<close> and one repeat the token is \<^verbatim>\<open>-h\<close>, the help shortcut: \<open>check\<close>
  prints the help and exits instead of returning the count 1.
\<close>

theorem check_help_token_counterexample:
  "check ex_hops (CHR ''-'' # replicate 1 CHR ''h'') = Exit (parent ex_hops)
   \<and> check ex_hops (CHR ''-'' # replicate 1 CHR ''h'') \<noteq> Return 1"
  by (simp add: check_def)

text \<open>
  Two more inputs the statement has to leave out: a short name that is a dash never
  matches, and a counter declared unique is refused when the count is above 1.
\<close>

lemma check_dash_short_name:
  "check (ex_hops\<lparr>sname := ''-''\<rparr>) (CHR ''-'' # replicate 2 CHR ''-'') = Return 0"
  by (simp add: check_def ex_hops_def HasPrefix_def numeral_2_eq_2)

lemma parse_unique_counter_twice:
  "parse ex_strconv ex_world (ex_verbosity\<lparr>unique := True\<rparr>) [] 2
     = Return (Some (OnlyOnce ''-v|--verbosity''), ex_verbosity\<lparr>unique := True\<rparr>, ex_world)"
  by (simp add: parse_def ex_verbosity_def name_def)

text \<open>
  C6, amended. For a combinable option (\<^verbatim>\<open>size\<close> 1) whose short name is the single
  character \<open>c\<close>, not a dash, and a token of a dash followed by \<open>N \<ge> 1\<close> repeats of \<open>c\<close>
  that is not the help token \<^verbatim>\<open>-h\<close>, \<open>check\<close> returns exactly \<open>N\<close>. When the slot is an
  integer holding \<open>v\<close>, the uniqueness check and the validation function let the call
  through, then \<open>parse\<close> with no captured arguments and the count \<open>N\<close> returns no error
  and leaves the slot at \<open>v + N\<close> in Go's integer arithmetic, which is \<open>v + N\<close> itself
  whenever that is inside the range of \<^verbatim>\<open>int\<close>.
\<close>

theorem check_repeated_short_counter:
  assumes "sname a = [c]" and "size_arg a = 1" and "c \<noteq> CHR ''-''" and "0 < N"
    and "\<not> (c = CHR ''h'' \<and> N = 1)"
  shows "check a (CHR ''-'' # replicate N c) = Return (int N)
         \<and> (result a = PInt v \<and> \<not> (unique a \<and> (parsed a \<or> 1 < int N)) \<and> validate a [] = None
              \<longrightarrow> parse L w a [] (int N)
                    = Return (None, a\<lparr>result := PInt (wrap_int (v + int N)), parsed := True\<rparr>, w)
                  \<and> (- (2 ^ 63) \<le> v \<and> v + int N < 2 ^ 63 \<longrightarrow> wrap_int (v + int N) = v + int N))"
proof -
  obtain M where N: "N = Suc M" using assms(4) by (cases N) auto
  have nohelp: "CHR ''-'' # replicate N c \<noteq> ''-h''"
    using assms(5) by (auto simp: N)
  have nohelp2: "CHR ''-'' # replicate N c \<noteq> ''--help''"
    using assms(3) by (auto simp: N)
  have nolong: "\<not> HasPrefix (CHR ''-'' # replicate N c) ''--''"
    using assms(3) by (simp add: HasPrefix_def N)
  have short: "1 < length (CHR ''-'' # replicate N c)"
      "HasPrefix (CHR ''-'' # replicate N c) ''-''"
      "(CHR ''-'' # replicate N c) ! 1 \<noteq> CHR ''-''"
    using assms(3) by (simp_all add: HasPrefix_def N)
  have "check a (CHR ''-'' # replicate N c) = Return (int (Count (replicate N c) [c]))"
    unfolding check_def using nohelp nohelp2 nolong short assms(1,2) by simp
  then have chk: "check a (CHR ''-'' # replicate N c) = Return (int N)"
    by (simp only: Count_replicate)
  have bind: "parse L w a [] (int N)
                = Return (None, a\<lparr>result := PInt (wrap_int (v + int N)), parsed := True\<rparr>, w)"
    if "result a = PInt v" "\<not> (unique a \<and> (parsed a \<or> 1 < int N))" "validate a [] = None"
    using that assms(2) by (auto simp: parse_def parse_switch_def)
  have "wrap_int (v + int N) = v + int N" if "- (2 ^ 63) \<le> v" "v + int N < 2 ^ 63"
    using that by (intro wrap_int_id) auto
  with chk bind show ?thesis by blast
qed

theorem check_repeated_short_counter_witness:
  "check ex_verbosity ''-vvv'' = Return 3
   \<and> parse ex_strconv ex_world ex_verbosity [] 3
       = Return (None, ex_verbosity\<lparr>result := PInt 7, parsed := True\<rparr>, ex_world)
   \<and> check ex_hops ''-hh'' = Return 2"
proof -
  have r3: "''-vvv'' = CHR ''-'' # replicate 3 CHR ''v''"
    and r2: "''-hh'' = CHR ''-'' # replicate 2 CHR ''h''"
    by (simp_all add: numeral_3_eq_3 numeral_2_eq_2)
  have v: "sname ex_verbosity = [CHR ''v'']" "size_arg ex_verbosity = 1" "CHR ''v'' \<noteq> CHR ''-''"
      "0 < (3::nat)" "\<not> (CHR ''v'' = CHR ''h'' \<and> (3::nat) = 1)"
    and h: "sname ex_hops = [CHR ''h'']" "size_arg ex_hops = 1" "CHR ''h'' \<noteq> CHR ''-''"
      "0 < (2::nat)" "\<not> (CHR ''h'' = CHR ''h'' \<and> (2::nat) = 1)"
    and b: "result ex_verbosity = PInt 4"
      "\<not> (unique ex_verbosity \<and> (parsed ex_verbosity \<or> 1 < int 3))"
      "validate ex_verbosity [] = None" "- (2 ^ 63) \<le> (4::int)" "(4::int) + int 3 < 2 ^ 63"
    by (simp_all add: ex_verbosity_def ex_hops_def validate_def)
  from check_repeated_short_counter [OF v, of 4 ex_strconv ex_world] b
  have "check ex_verbosity ''-vvv'' = Return 3
        \<and> parse ex_strconv ex_world ex_verbosity [] 3
            = Return (None, ex_verbosity\<lparr>result := PInt 7, parsed := True\<rparr>, ex_world)"
    unfolding r3 [symmetric] by simp
  moreover from check_repeated_short_counter [OF h, of 0 ex_strconv ex_world]
  have "check ex_hops ''-hh'' = Return 2"
    unfolding r2 [symmetric] by simp
  ultimately show ?thesis by simp
qed

subsection \<open>Default applier: a list of files, and unsupported types\<close>

text \<open>
  C2 at the default \<^verbatim>\<open>a\<close>, \<^verbatim>\<open>missing\<close>, \<^verbatim>\<open>c\<close> of an unmatched list of files whose slot is
  empty. \<open>setDefault\<close> opens \<^verbatim>\<open>a\<close> (handle 0), fails on \<^verbatim>\<open>missing\<close>, and closes the
  handles of the result slot, which holds none, instead of the files it has opened in
  this call: the error is returned and the slot is empty, but handle 0 is still open.
\<close>

theorem setDefault_files_leak:
  "setDefault ex_world ex_inputs
     = (Some (OsError ''open missing: no such file or directory''),
        ex_inputs\<lparr>result := PFiles []\<rparr>,
        ex_world\<lparr>live := [0], fresh := 1, name_of := (name_of ex_world)(0 := ''a'')\<rparr>)
   \<and> live (snd (snd (setDefault ex_world ex_inputs))) = [0]"
proof -
  have "setDefault ex_world ex_inputs
     = (Some (OsError ''open missing: no such file or directory''),
        ex_inputs\<lparr>result := PFiles []\<rparr>,
        ex_world\<lparr>live := [0], fresh := 1, name_of := (name_of ex_world)(0 := ''a'')\<rparr>)"
    by (simp add: setDefault_def default_switch_def ex_inputs_def ex_file_defaults_def
          ex_world_def OpenFile_def open_failed_def)
  then show ?thesis by simp
qed

text \<open>
  The files opened before the failure stay open in general: when the loop of
  \<open>setDefault\<close> returns an error, every handle it has opened in this call (the handles
  from \<open>fresh w\<close> up to \<open>fresh w'\<close>), and every handle of \<open>files\<close> that was open, is
  open afterwards, as long as the result slot holds only handles handed out earlier.
\<close>

lemma open_each_leaks:
  assumes "open_each w a held vs files = (Some e, a', w')"
    and "set files \<subseteq> set (live w)" and "set files \<inter> set held = {}"
    and "\<forall>h\<in>set held. h < fresh w"
  shows "set files \<union> {fresh w..<fresh w'} \<subseteq> set (live w')"
  using assms
proof (induction vs arbitrary: w files)
  case Nil
  then show ?case by simp
next
  case (Cons v vs)
  show ?case
  proof (cases "open_err w v (fileFlag a) (filePerm a)")
    case (Some err)
    with Cons.prems(1) have w': "w' = snd (close_each w held [])"
      by (auto simp: OpenFile_def open_failed_def split: prod.splits)
    then have "live w' = filter (\<lambda>f. f \<notin> set held) (live w)"
      by (simp add: close_each_live)
    moreover from w' have "fresh w' = fresh w"
      by (simp add: close_each_frame)
    ultimately show ?thesis using Cons.prems(2,3) by auto
  next
    case None
    let ?w = "w\<lparr>live := live w @ [fresh w], fresh := Suc (fresh w),
                name_of := (name_of w)(fresh w := v)\<rparr>"
    from None Cons.prems(1)
    have "open_each ?w a held vs (files @ [fresh w]) = (Some e, a', w')"
      by (simp add: OpenFile_def)
    moreover have "set (files @ [fresh w]) \<subseteq> set (live ?w)"
      using Cons.prems(2) by auto
    moreover have "set (files @ [fresh w]) \<inter> set held = {}"
      using Cons.prems(3,4) by auto
    moreover have "\<forall>h\<in>set held. h < fresh ?w"
      using Cons.prems(4) by auto
    ultimately have "set (files @ [fresh w]) \<union> {fresh ?w..<fresh w'} \<subseteq> set (live w')"
      by (rule Cons.IH)
    moreover have "{fresh w..<fresh w'} \<subseteq> insert (fresh w) {Suc (fresh w)..<fresh w'}"
      by auto
    ultimately show ?thesis by auto
  qed
qed

text \<open>
  C5 at an option whose result slot has the type \<^verbatim>\<open>*uint\<close>, not parsed, with the
  declared default 3: \<open>setDefault\<close> returns no error and changes nothing, while \<open>parse\<close>
  reports the unsupported type for the same option.
\<close>

theorem setDefault_unsupported_silent:
  "setDefault ex_world ex_other = (None, ex_other, ex_world)
   \<and> parse ex_strconv ex_world ex_other [''3''] 1 = Return (Some UnsupportedType, ex_other, ex_world)"
  by (simp add: setDefault_def default_switch_def parse_def parse_switch_def validate_def
        ex_other_def)

end
